theory Spec2Isabelle
  imports Complex_Main "HOL-Library.Word"
begin

section \<open>The colour picker hook of the canvas (useColorUnderCursor.ts)\<close>

text \<open>
  The hook \<open>useColorPicker\<close> looks up the canvas base layer and the stage once, in its
  body, and returns two operations that close over what it found:
  \<open>updateColorUnderCursor\<close> reads one pixel under the pointer and dispatches
  \<open>setColorPickerColor\<close>; \<open>commitColorUnderCursor\<close> dispatches
  \<open>commitColorPickerColor\<close>.

  Everything the operations do is a call to a collaborator (the stage, the layer's 2D
  context, the store's \<open>dispatch\<close>), so the model returns the calls made, in order,
  and the exception that ended the operation, if any.
\<close>

subsection \<open>Data\<close>

text \<open>
  JavaScript numbers are a type parameter \<open>'n\<close> of which only the product \<open>*\<close> is
  used, as in the source. Stage and layer objects are references into the environment,
  so that a captured reference and the provider's current one can differ.
\<close>

type_synonym ref = nat

type_synonym byte = "8 word"

text \<open>The pointer position \<open>{x, y}\<close> (\<open>Vector2d\<close>).\<close>

record 'n Vector2d =
  x_coord :: 'n
  y_coord :: 'n

text \<open>
  A colour channel is an element of the pixel array, or \<open>undefined\<close> (\<open>None\<close>)
  where array destructuring runs past the end of the array.
\<close>

type_synonym channel = "byte option"

record RgbaColor =
  r_chan :: channel
  g_chan :: channel
  b_chan :: channel
  a_chan :: channel

text \<open>The two actions of canvasSlice that the hook creates.\<close>

datatype action =
    setColorPickerColor RgbaColor
  | commitColorPickerColor

text \<open>An exception thrown by a collaborator, with its name.\<close>

datatype error = Thrown string

text \<open>
  The environment of a call: what the two getters of konvaInstanceProvider answer
  (the layer and the stage currently registered, or \<open>null\<close>), the global
  \<open>Konva.pixelRatio\<close>, what each stage object answers to \<open>getPointerPosition()\<close>
  and what each layer object answers to
  \<open>getContext().getImageData(sx, sy, sw, sh).data\<close> (the bytes, or an exception).
\<close>

record 'n env =
  getCanvasBaseLayer :: "ref option"
  getCanvasStage :: "ref option"
  pixelRatio :: 'n
  getPointerPosition :: "ref \<Rightarrow> 'n Vector2d option"
  getImageData :: "ref \<Rightarrow> 'n \<Rightarrow> 'n \<Rightarrow> nat \<Rightarrow> nat \<Rightarrow> error + byte list"

text \<open>The calls to collaborators, as they are observed from outside.\<close>

datatype 'n event =
    GetCanvasBaseLayer
  | GetCanvasStage
  | GetPointerPosition ref
  | GetImageData ref 'n 'n nat nat
  | Dispatch action

record 'n outcome =
  events :: "'n event list"
  raised :: "error option"

text \<open>What the body of the hook captured for the operations it returns.\<close>

record closure =
  canvasBaseLayer :: "ref option"
  stage :: "ref option"

subsection \<open>The hook\<close>

text \<open>
  \<open>const [r, g, b, a] = data\<close>: element \<open>i\<close> of the array, \<open>undefined\<close> past its end.
\<close>

definition element :: "byte list \<Rightarrow> nat \<Rightarrow> channel" where
  "element data i = (if i < length data then Some (data ! i) else None)"

text \<open>
  The body of \<open>useColorPicker\<close>: both lookups happen here, layer first, and the result
  is what the two operations close over.
\<close>

definition useColorPicker :: "'n env \<Rightarrow> 'n event list \<times> closure" where
  "useColorPicker e =
     ([GetCanvasBaseLayer, GetCanvasStage],
      \<lparr>canvasBaseLayer = getCanvasBaseLayer e, stage = getCanvasStage e\<rparr>)"

definition updateColorUnderCursor :: "closure \<Rightarrow> ('n::times) env \<Rightarrow> 'n outcome" where
  "updateColorUnderCursor h e =
     (case stage h of
        None \<Rightarrow> \<lparr>events = [], raised = None\<rparr>
      | Some st \<Rightarrow>
         (case canvasBaseLayer h of
            None \<Rightarrow> \<lparr>events = [], raised = None\<rparr>
          | Some ly \<Rightarrow>
             (case getPointerPosition e st of
                None \<Rightarrow> \<lparr>events = [GetPointerPosition st], raised = None\<rparr>
              | Some position \<Rightarrow>
                 (let sx = x_coord position * pixelRatio e;
                      sy = y_coord position * pixelRatio e
                  in case getImageData e ly sx sy 1 1 of
                       Inl err \<Rightarrow>
                         \<lparr>events = [GetPointerPosition st, GetImageData ly sx sy 1 1],
                          raised = Some err\<rparr>
                     | Inr data \<Rightarrow>
                         \<lparr>events =
                            [GetPointerPosition st, GetImageData ly sx sy 1 1,
                             Dispatch (setColorPickerColor
                               \<lparr>r_chan = element data 0, g_chan = element data 1,
                                b_chan = element data 2, a_chan = element data 3\<rparr>)],
                          raised = None\<rparr>))))"

definition commitColorUnderCursor :: "closure \<Rightarrow> 'n env \<Rightarrow> 'n outcome" where
  "commitColorUnderCursor h e =
     \<lparr>events = [Dispatch commitColorPickerColor], raised = None\<rparr>"

subsection \<open>Reading a trace\<close>

text \<open>The pixel reads, the dispatched actions and the provider lookups of a trace.\<close>

fun pixel_reads :: "'n event list \<Rightarrow> (ref \<times> 'n \<times> 'n \<times> nat \<times> nat) list" where
  "pixel_reads [] = []"
| "pixel_reads (GetImageData ly sx sy sw sh # evs) = (ly, sx, sy, sw, sh) # pixel_reads evs"
| "pixel_reads (_ # evs) = pixel_reads evs"

fun dispatched :: "'n event list \<Rightarrow> action list" where
  "dispatched [] = []"
| "dispatched (Dispatch act # evs) = act # dispatched evs"
| "dispatched (_ # evs) = dispatched evs"


subsection \<open>The store\<close>

text \<open>
  The store runs its reducer on every dispatched action, in order.
\<close>

definition run_store :: "('s \<Rightarrow> action \<Rightarrow> 's) \<Rightarrow> 's \<Rightarrow> action list \<Rightarrow> 's" where
  "run_store reducer s acts = foldl reducer s acts"

text \<open>
  Modelled from the spec: the state of canvasSlice is not among the sources. The
  specification gives \<open>ColorPickerState\<close> two fields, \<open>preview\<close> and \<open>committed\<close>,
  each a colour or absent.
\<close>

record ColorPickerState =
  preview :: "RgbaColor option"
  committed :: "RgbaColor option"

text \<open>
  Modelled from the spec: the initial state of canvasSlice is not among the sources. The
  specification gives \<open>Unset\<close> as the initial state of both fields.
\<close>

definition initialColorPickerState :: ColorPickerState where
  "initialColorPickerState = \<lparr>preview = None, committed = None\<rparr>"

text \<open>
  Modelled from the spec: canvasSlice, which holds the reducers of the two actions, is
  not among the sources. The specification gives: \<open>updatePreview(color)\<close>
  unconditionally overwrites \<open>preview\<close> with the given colour; \<open>commit()\<close> copies the
  current \<open>preview\<close> into \<open>committed\<close>, and is a no-op when \<open>preview\<close> is absent.
\<close>

fun canvasReducer :: "ColorPickerState \<Rightarrow> action \<Rightarrow> ColorPickerState" where
  "canvasReducer s (setColorPickerColor c) = s\<lparr>preview := Some c\<rparr>"
| "canvasReducer s commitColorPickerColor =
     (case preview s of None \<Rightarrow> s | Some c \<Rightarrow> s\<lparr>committed := Some c\<rparr>)"

subsection \<open>The 2D context of the platform\<close>









subsection \<open>Example environments\<close>

text \<open>
  The scenario of the specification: pixel ratio 2, the pointer at \<open>(10, 20)\<close>, and a
  layer whose pixel at \<open>(20, 40)\<close> is \<open>(255, 0, 128, 255)\<close>; every other pixel is
  \<open>(1, 2, 3, 4)\<close>.
\<close>

definition scenario_env :: "real env" where
  "scenario_env =
     \<lparr>getCanvasBaseLayer = Some 0, getCanvasStage = Some 0, pixelRatio = 2,
      getPointerPosition = (\<lambda>st. Some \<lparr>x_coord = 10, y_coord = 20\<rparr>),
      getImageData = (\<lambda>ly sx sy sw sh.
        if sx = 20 \<and> sy = 40 then Inr [255, 0, 128, 255] else Inr [1, 2, 3, 4])\<rparr>"








text \<open>No canvas is mounted: both getters answer \<open>null\<close>.\<close>

definition unmounted_env :: "real env" where
  "unmounted_env =
     \<lparr>getCanvasBaseLayer = None, getCanvasStage = None, pixelRatio = 1,
      getPointerPosition = (\<lambda>st. None),
      getImageData = (\<lambda>ly sx sy sw sh. Inr [0, 0, 0, 0])\<rparr>"

text \<open>A canvas is mounted and the pointer has not entered the stage.\<close>

definition no_pointer_env :: "real env" where
  "no_pointer_env =
     \<lparr>getCanvasBaseLayer = Some 0, getCanvasStage = Some 0, pixelRatio = 1,
      getPointerPosition = (\<lambda>st. None),
      getImageData = (\<lambda>ly sx sy sw sh. Inr [9, 9, 9, 9])\<rparr>"

definition magenta :: RgbaColor where
  "magenta = \<lparr>r_chan = Some 255, g_chan = Some 0, b_chan = Some 128, a_chan = Some 255\<rparr>"

definition transparent_black :: RgbaColor where
  "transparent_black = \<lparr>r_chan = Some 0, g_chan = Some 0, b_chan = Some 0, a_chan = Some 0\<rparr>"

section \<open>Sampling\<close>

text \<open>
  Claim C1. When the hook captured a stage and a layer and the stage reports the pointer
  at \<open>(px, py)\<close>, a call of \<open>updateColorUnderCursor\<close> makes exactly one pixel read: of
  the captured layer, at \<open>(px * pixelRatio, py * pixelRatio)\<close>, the products as they
  are, and of width and height 1.
\<close>

theorem updateColorUnderCursor_reads_at_scaled_position:
  assumes "stage h = Some st"
    and "canvasBaseLayer h = Some ly"
    and "getPointerPosition e st = Some \<lparr>x_coord = px, y_coord = py\<rparr>"
  shows "pixel_reads (events (updateColorUnderCursor h e)) =
           [(ly, px * pixelRatio e, py * pixelRatio e, 1, 1)]"
  using assms
  by (simp add: updateColorUnderCursor_def Let_def split: sum.split)

theorem updateColorUnderCursor_reads_at_scaled_position_witness:
  "stage \<lparr>canvasBaseLayer = Some 0, stage = Some 0\<rparr> = Some 0 \<and>
   canvasBaseLayer \<lparr>canvasBaseLayer = Some 0, stage = Some 0\<rparr> = Some 0 \<and>
   getPointerPosition scenario_env 0 = Some \<lparr>x_coord = 10, y_coord = 20\<rparr> \<and>
   pixel_reads (events (updateColorUnderCursor
       \<lparr>canvasBaseLayer = Some 0, stage = Some 0\<rparr> scenario_env)) =
     [(0, 20, 40, 1, 1)]"
  using updateColorUnderCursor_reads_at_scaled_position
    [of "\<lparr>canvasBaseLayer = Some 0, stage = Some 0\<rparr>" 0 0 scenario_env 10 20]
  by (simp add: scenario_env_def)













text \<open>
  Claim C3. When the captured stage is absent, or the captured layer is absent, or the
  stage reports no pointer position, \<open>updateColorUnderCursor\<close> reads no pixel,
  dispatches nothing and raises nothing; the store, whatever its reducer, is left as it
  was.
\<close>

theorem updateColorUnderCursor_idle_noop:
  assumes "stage h = None \<or> canvasBaseLayer h = None \<or>
           (\<exists>st. stage h = Some st \<and> getPointerPosition e st = None)"
  shows "pixel_reads (events (updateColorUnderCursor h e)) = [] \<and>
         dispatched (events (updateColorUnderCursor h e)) = [] \<and>
         raised (updateColorUnderCursor h e) = None \<and>
         run_store reducer s (dispatched (events (updateColorUnderCursor h e))) = s"
  using assms
  by (auto simp add: updateColorUnderCursor_def run_store_def split: option.split)

theorem updateColorUnderCursor_idle_noop_witness:
  "(stage (snd (useColorPicker no_pointer_env)) = None \<or>
    canvasBaseLayer (snd (useColorPicker no_pointer_env)) = None \<or>
    (\<exists>st. stage (snd (useColorPicker no_pointer_env)) = Some st \<and>
          getPointerPosition no_pointer_env st = None)) \<and>
   pixel_reads (events (updateColorUnderCursor
       (snd (useColorPicker no_pointer_env)) no_pointer_env)) = [] \<and>
   dispatched (events (updateColorUnderCursor
       (snd (useColorPicker no_pointer_env)) no_pointer_env)) = [] \<and>
   preview (run_store canvasReducer \<lparr>preview = Some magenta, committed = None\<rparr>
     (dispatched (events (updateColorUnderCursor
       (snd (useColorPicker no_pointer_env)) no_pointer_env)))) = Some magenta"
proof -
  have idle: "stage (snd (useColorPicker no_pointer_env)) = None \<or>
      canvasBaseLayer (snd (useColorPicker no_pointer_env)) = None \<or>
      (\<exists>st. stage (snd (useColorPicker no_pointer_env)) = Some st \<and>
            getPointerPosition no_pointer_env st = None)"
    by (simp add: useColorPicker_def no_pointer_env_def)
  from updateColorUnderCursor_idle_noop [OF idle, of canvasReducer
      "\<lparr>preview = Some magenta, committed = None\<rparr>"] idle
  show ?thesis by (simp add: run_store_def)
qed

text \<open>
  Claim C7. On a successful sample the bytes of the read become the channels r, g, b, a
  in that order, unchanged, in the one action dispatched; the store then previews that
  colour, and a commit that follows makes it the committed colour. The scenario of the
  specification (pixel ratio 2, pointer at \<open>(10, 20)\<close>, pixel \<open>(255, 0, 128, 255)\<close> at
  \<open>(20, 40)\<close>) is the witness.
\<close>

theorem updateColorUnderCursor_emits_rgba_in_order:
  assumes "stage h = Some st"
    and "canvasBaseLayer h = Some ly"
    and "getPointerPosition e st = Some \<lparr>x_coord = px, y_coord = py\<rparr>"
    and "getImageData e ly (px * pixelRatio e) (py * pixelRatio e) 1 1 =
           Inr [red, green, blue, alpha]"
  shows "dispatched (events (updateColorUnderCursor h e)) =
           [setColorPickerColor
              \<lparr>r_chan = Some red, g_chan = Some green,
               b_chan = Some blue, a_chan = Some alpha\<rparr>] \<and>
         raised (updateColorUnderCursor h e) = None \<and>
         preview (run_store canvasReducer s
             (dispatched (events (updateColorUnderCursor h e)))) =
           Some \<lparr>r_chan = Some red, g_chan = Some green,
                 b_chan = Some blue, a_chan = Some alpha\<rparr> \<and>
         committed (run_store canvasReducer s
             (dispatched (events (updateColorUnderCursor h e)) @
              dispatched (events (commitColorUnderCursor h e)))) =
           Some \<lparr>r_chan = Some red, g_chan = Some green,
                 b_chan = Some blue, a_chan = Some alpha\<rparr>"
  using assms
  by (simp add: updateColorUnderCursor_def commitColorUnderCursor_def Let_def
      element_def run_store_def)

theorem updateColorUnderCursor_emits_rgba_in_order_witness:
  "stage (snd (useColorPicker scenario_env)) = Some 0 \<and>
   canvasBaseLayer (snd (useColorPicker scenario_env)) = Some 0 \<and>
   getPointerPosition scenario_env 0 = Some \<lparr>x_coord = 10, y_coord = 20\<rparr> \<and>
   getImageData scenario_env 0 (10 * pixelRatio scenario_env)
       (20 * pixelRatio scenario_env) 1 1 = Inr [255, 0, 128, 255] \<and>
   dispatched (events (updateColorUnderCursor
       (snd (useColorPicker scenario_env)) scenario_env)) =
     [setColorPickerColor magenta] \<and>
   committed (run_store canvasReducer initialColorPickerState
       (dispatched (events (updateColorUnderCursor
          (snd (useColorPicker scenario_env)) scenario_env)) @
        dispatched (events (commitColorUnderCursor
          (snd (useColorPicker scenario_env)) scenario_env)))) = Some magenta"
proof -
  have st: "stage (snd (useColorPicker scenario_env)) = Some 0"
    and ly: "canvasBaseLayer (snd (useColorPicker scenario_env)) = Some 0"
    by (simp_all add: useColorPicker_def scenario_env_def)
  have pos: "getPointerPosition scenario_env 0 = Some \<lparr>x_coord = 10, y_coord = 20\<rparr>"
    by (simp add: scenario_env_def)
  have px: "getImageData scenario_env 0 (10 * pixelRatio scenario_env)
      (20 * pixelRatio scenario_env) 1 1 = Inr [255, 0, 128, 255]"
    by (simp add: scenario_env_def)
  show ?thesis
    unfolding magenta_def
    using updateColorUnderCursor_emits_rgba_in_order
      [OF st ly pos px, of initialColorPickerState] st ly pos px
    by blast
qed

section \<open>Preview and commit\<close>

text \<open>
  In every state the store reaches from its initial state, a committed colour is there
  only if a preview colour is.
\<close>

lemma canvasReducer_committed_needs_preview:
  assumes "preview s = None \<longrightarrow> committed s = None"
  shows "preview (canvasReducer s act) = None \<longrightarrow> committed (canvasReducer s act) = None"
  using assms by (cases act) (auto split: option.split)

lemma run_store_committed_needs_preview:
  "preview (run_store canvasReducer initialColorPickerState acts) = None \<longrightarrow>
   committed (run_store canvasReducer initialColorPickerState acts) = None"
proof (induction acts rule: rev_induct)
  case Nil
  show ?case by (simp add: run_store_def initialColorPickerState_def)
next
  case (snoc act acts)
  then show ?case
    using canvasReducer_committed_needs_preview
      [of "run_store canvasReducer initialColorPickerState acts" act]
    by (simp add: run_store_def)
qed

text \<open>
  Claim C4. From a state whose preview is \<open>c\<close>, one \<open>commitColorUnderCursor\<close> makes
  the committed colour \<open>c\<close>, and a second one, with no preview update in between,
  leaves the whole state, and so the committed colour, as the first left it.
\<close>

theorem commit_idempotent:
  assumes "preview s = Some c"
  shows "committed (run_store canvasReducer s
             (dispatched (events (commitColorUnderCursor h e)))) = Some c \<and>
         committed (run_store canvasReducer s
             (dispatched (events (commitColorUnderCursor h e)) @
              dispatched (events (commitColorUnderCursor h e)))) = Some c \<and>
         run_store canvasReducer s
             (dispatched (events (commitColorUnderCursor h e)) @
              dispatched (events (commitColorUnderCursor h e))) =
           run_store canvasReducer s
             (dispatched (events (commitColorUnderCursor h e)))"
  using assms by (simp add: commitColorUnderCursor_def run_store_def)

theorem commit_idempotent_witness:
  "preview \<lparr>preview = Some magenta, committed = Some transparent_black\<rparr> = Some magenta \<and>
   committed (run_store canvasReducer
       \<lparr>preview = Some magenta, committed = Some transparent_black\<rparr>
       (dispatched (events (commitColorUnderCursor
          \<lparr>canvasBaseLayer = None, stage = None\<rparr> unmounted_env)) @
        dispatched (events (commitColorUnderCursor
          \<lparr>canvasBaseLayer = None, stage = None\<rparr> unmounted_env)))) = Some magenta"
  using commit_idempotent
    [of "\<lparr>preview = Some magenta, committed = Some transparent_black\<rparr>" magenta
        "\<lparr>canvasBaseLayer = None, stage = None\<rparr>" unmounted_env]
  by simp

text \<open>
  Claim C5. From a state whose preview is absent, \<open>commitColorUnderCursor\<close> leaves the
  state as it is; and when that state was reached from the initial state, where both
  fields are unset, the committed colour is unset before the commit and after it.
\<close>

theorem commit_without_preview_noop:
  assumes "preview s = None"
  shows "run_store canvasReducer s
             (dispatched (events (commitColorUnderCursor h e))) = s \<and>
         (s = run_store canvasReducer initialColorPickerState acts \<longrightarrow>
            committed s = None \<and>
            committed (run_store canvasReducer s
              (dispatched (events (commitColorUnderCursor h e)))) = None)"
  using assms run_store_committed_needs_preview [of acts]
  by (auto simp add: commitColorUnderCursor_def run_store_def)

theorem commit_without_preview_noop_witness:
  "preview (run_store canvasReducer initialColorPickerState
       [commitColorPickerColor]) = None \<and>
   run_store canvasReducer
       (run_store canvasReducer initialColorPickerState [commitColorPickerColor])
       (dispatched (events (commitColorUnderCursor
          \<lparr>canvasBaseLayer = None, stage = None\<rparr> unmounted_env))) =
     run_store canvasReducer initialColorPickerState [commitColorPickerColor] \<and>
   committed (run_store canvasReducer
       (run_store canvasReducer initialColorPickerState [commitColorPickerColor])
       (dispatched (events (commitColorUnderCursor
          \<lparr>canvasBaseLayer = None, stage = None\<rparr> unmounted_env)))) = None"
proof -
  have unset: "preview (run_store canvasReducer initialColorPickerState
      [commitColorPickerColor]) = None"
    by (simp add: run_store_def initialColorPickerState_def)
  from commit_without_preview_noop
    [OF unset, of "\<lparr>canvasBaseLayer = None, stage = None\<rparr>" unmounted_env
       "[commitColorPickerColor]"] unset
  show ?thesis by simp
qed

text \<open>
  Claim C9. Whatever the state, after \<open>setColorPickerColor c1\<close> and then
  \<open>setColorPickerColor c2\<close> the preview is \<open>c2\<close>.
\<close>

theorem setColorPickerColor_last_write_wins:
  "preview (run_store canvasReducer s
      [setColorPickerColor c1, setColorPickerColor c2]) = Some c2"
  by (simp add: run_store_def)

text \<open>
  Claim C8. Whatever a call of \<open>updateColorUnderCursor\<close> does (a sample, a no-op or an
  exception from the read), the committed colour of the store is after it what it was
  before.
\<close>

theorem updateColorUnderCursor_keeps_committed:
  "committed (run_store canvasReducer s
      (dispatched (events (updateColorUnderCursor h e)))) = committed s"
  by (simp add: updateColorUnderCursor_def run_store_def Let_def
      split: option.split sum.split)

text \<open>
  Claim C10. \<open>commitColorUnderCursor\<close> does the same in every environment and with
  every captured stage and layer, present or absent: it dispatches
  \<open>commitColorPickerColor\<close> once, makes no lookup, asks the stage nothing, reads no
  pixel and raises nothing, so that the store, whatever its reducer, takes exactly the
  step of that action.
\<close>

theorem commitColorUnderCursor_independent_of_canvas:
  "commitColorUnderCursor h1 e1 = commitColorUnderCursor h2 e2 \<and>
   events (commitColorUnderCursor h1 e1) = [Dispatch commitColorPickerColor] \<and>
   raised (commitColorUnderCursor h1 e1) = None \<and>
   run_store reducer s (dispatched (events (commitColorUnderCursor h1 e1))) =
     reducer s commitColorPickerColor"
  by (simp add: commitColorUnderCursor_def run_store_def)

section \<open>When the references are looked up\<close>



end
